theory Spec2Isabelle
  imports Main "HOL-Library.Char_ord" "HOL-Library.List_Lexorder"
begin

section \<open>The WiFi device manager (\<open>WifiManager::Impl\<close>)\<close>

text \<open>
  Member names lose the trailing underscore of the source (\<open>networks_\<close> is
  \<open>networks\<close>), which is not a name a term may use.

  \<open>WifiManager::Impl\<close> keeps the list of networks found by the last scan, the radio flag
  and two optional callbacks. Every member function runs to completion on the thread
  that calls it: an external command is started with \<open>popen\<close> or \<open>std::system\<close> and
  the caller waits for it. The model passes the state explicitly and returns the
  observable events of the call in the order the code produces them. What the outside
  world answers (the text a pipe delivers, the value \<open>std::system\<close> returns) is an
  argument of the function.

  A stored \<open>std::function\<close> is modelled by the flag "a callable is registered"; invoking
  it is the event \<open>UpdateCallback\<close> or \<open>StateCallback\<close> with the argument passed. What
  the callee does lies outside the manager (the WiFi tab rebuilds its list of network
  widgets, or sets its switch and labels); the model takes it to return without
  calling back into the manager.
\<close>

record Network =
  ssid :: string
  bssid :: string
  signal_strength :: int
  connected :: bool
  secured :: bool

datatype event =
    Popen string
  | System string
  | UpdateCallback "Network list"
  | StateCallback bool
  | Cout string
  | Cerr string
  | Usleep nat
  | DialogRun string

text \<open>
  What a \<open>popen\<close> call gives: a null pipe, or a pipe that delivers a text (all the
  command writes to its standard output) and is then closed; the number is the value
  of \<open>pclose\<close>, the exit indicator of the command.
\<close>

datatype pipe = PopenFailed | PipeClosed string int

record Impl =
  networks :: "Network list"
  update_callback :: bool
  state_callback :: bool
  wifi_enabled :: bool

subsection \<open>\<open>split\<close>, \<open>std::stoi\<close> and the scan listing\<close>

fun split_from :: "string \<Rightarrow> char \<Rightarrow> string \<Rightarrow> string list" where
  "split_from [] delimiter token = [token]"
| "split_from (c # s) delimiter token =
     (if c = delimiter then token # split_from s delimiter []
      else split_from s delimiter (token @ [c]))"

definition split :: "string \<Rightarrow> char \<Rightarrow> string list" where
  "split s delimiter = split_from s delimiter []"

definition isspace :: "char \<Rightarrow> bool" where
  "isspace c \<longleftrightarrow> c \<in> {CHR '' '', CHR 0x09, CHR 0x0A, CHR 0x0B, CHR 0x0C, CHR 0x0D}"

definition isdigit :: "char \<Rightarrow> bool" where
  "isdigit c \<longleftrightarrow> CHR ''0'' \<le> c \<and> c \<le> CHR ''9''"

definition digits_value :: "string \<Rightarrow> int" where
  "digits_value ds = foldl (\<lambda>acc d. 10 * acc + (of_char d - 48)) 0 ds"

text \<open>
  \<open>std::stoi\<close> with base 10: leading white space is skipped, one sign is accepted, the
  longest run of digits is converted and the rest of the string is ignored. It throws
  when there is no digit to convert and when the value does not fit an \<open>int\<close>; the
  model returns \<open>None\<close> then.
\<close>

definition stoi :: "string \<Rightarrow> int option" where
  "stoi str =
     (let s1 = dropWhile isspace str;
          negative = (s1 \<noteq> [] \<and> hd s1 = CHR ''-'');
          s2 = (if s1 \<noteq> [] \<and> (hd s1 = CHR ''-'' \<or> hd s1 = CHR ''+'') then tl s1 else s1);
          ds = takeWhile isdigit s2;
          v = (if negative then - digits_value ds else digits_value ds)
      in if ds = [] then None
         else if v < - 2147483648 \<or> 2147483647 < v then None
         else Some v)"

definition parse_line :: "string \<Rightarrow> Network option" where
  "parse_line line =
     (let tokens = split line (CHR '':'')
      in if 4 \<le> length tokens then
           Some \<lparr>ssid = tokens ! 1,
                 bssid = [],
                 signal_strength = (case stoi (tokens ! 2) of Some signal \<Rightarrow> signal | None \<Rightarrow> 0),
                 connected = (tokens ! 0 = ''*''),
                 secured = (tokens ! 3 \<noteq> ''--'' \<and> tokens ! 3 \<noteq> [])\<rparr>
         else None)"

fun find_char :: "char \<Rightarrow> string \<Rightarrow> nat option" where
  "find_char c [] = None"
| "find_char c (x # xs) =
     (if x = c then Some 0 else map_option Suc (find_char c xs))"

lemma find_char_less: "find_char c s = Some pos \<Longrightarrow> pos < length s"
  by (induction s arbitrary: pos) (auto split: if_splits)

text \<open>
  The loop of \<open>scan_networks\<close> over the text read from the pipe: as long as the text
  holds a newline, the line before it is cut off and, when it has at least four fields,
  appended to the list as a network. Text after the last newline is never looked at.
\<close>

function parse_result :: "string \<Rightarrow> Network list \<Rightarrow> Network list" where
  "parse_result result nets =
     (case find_char (CHR 0x0A) result of
        None \<Rightarrow> nets
      | Some pos \<Rightarrow>
          (let line = take pos result;
               result' = drop (pos + 1) result
           in case parse_line line of
                Some net \<Rightarrow> parse_result result' (nets @ [net])
              | None \<Rightarrow> parse_result result' nets))"
  by pat_completeness auto
termination
  by (relation "measure (\<lambda>(result, nets). length result)")
     (auto dest: find_char_less)

declare parse_result.simps [simp del]

subsection \<open>Reading a pipe\<close>

text \<open>
  \<open>fgets (buffer, n, pipe)\<close> takes at most \<open>n - 1\<close> characters and stops behind the
  first newline; \<open>buffer.data()\<close> read as a C string ends before the first NUL.
  \<open>read_all\<close> is the loop that appends one buffer after the other until the pipe is
  empty. (With a buffer of one character \<open>fgets\<close> would never take anything and the
  loop would not end; the buffers of the source hold 4096 and 128 characters.)
\<close>

definition fgets :: "nat \<Rightarrow> string \<Rightarrow> string" where
  "fgets n data =
     (case find_char (CHR 0x0A) (take (n - 1) data) of
        Some pos \<Rightarrow> take (pos + 1) data
      | None \<Rightarrow> take (n - 1) data)"

definition c_str :: "string \<Rightarrow> string" where
  "c_str buffer = takeWhile (\<lambda>c. c \<noteq> CHR 0x00) buffer"

lemma fgets_not_empty: "data \<noteq> [] \<Longrightarrow> 1 < n \<Longrightarrow> fgets n data \<noteq> []"
  by (cases data) (auto simp: fgets_def split: option.splits)

function read_all :: "nat \<Rightarrow> string \<Rightarrow> string" where
  "read_all n data =
     (if data = [] \<or> n \<le> 1 then []
      else c_str (fgets n data) @ read_all n (drop (length (fgets n data)) data))"
  by pat_completeness auto
termination
  by (relation "measure (\<lambda>(n, data). length data)")
     (use fgets_not_empty in \<open>auto simp: not_le\<close>)

declare read_all.simps [simp del]

subsection \<open>\<open>scan_networks\<close>, \<open>enable_wifi\<close>, \<open>disable_wifi\<close>\<close>

definition scan_cmd :: string where
  "scan_cmd = ''nmcli -t -f IN-USE,SSID,SIGNAL,SECURITY device wifi list''"

definition notify_update :: "Impl \<Rightarrow> event list" where
  "notify_update s = (if update_callback s then [UpdateCallback (networks s)] else [])"

definition notify_state :: "Impl \<Rightarrow> event list" where
  "notify_state s = (if state_callback s then [StateCallback (wifi_enabled s)] else [])"

definition scan_networks :: "pipe \<Rightarrow> Impl \<Rightarrow> event list \<times> Impl" where
  "scan_networks p s =
     (if \<not> wifi_enabled s then
        (let s1 = s\<lparr>networks := []\<rparr> in (notify_update s1, s1))
      else
        (let s1 = s\<lparr>networks := []\<rparr>
         in case p of
              PopenFailed \<Rightarrow> ([Popen scan_cmd, Cerr ''Failed to run nmcli\<newline>''], s1)
            | PipeClosed result status \<Rightarrow>
                (let s2 = s1\<lparr>networks := parse_result (read_all 4096 result) (networks s1)\<rparr>
                 in (Popen scan_cmd # notify_update s2, s2))))"

definition enable_wifi :: "int \<Rightarrow> pipe \<Rightarrow> Impl \<Rightarrow> event list \<times> Impl" where
  "enable_wifi ret p s =
     (if ret = 0 then
        (let s1 = s\<lparr>wifi_enabled := True\<rparr>;
             (evs, s2) = scan_networks p s1
         in (System ''nmcli radio wifi on'' # notify_state s1 @ evs, s2))
      else ([System ''nmcli radio wifi on''], s))"

definition disable_wifi :: "int \<Rightarrow> Impl \<Rightarrow> event list \<times> Impl" where
  "disable_wifi ret s =
     (if ret = 0 then
        (let s1 = s\<lparr>wifi_enabled := False\<rparr>;
             s2 = s1\<lparr>networks := []\<rparr>
         in (System ''nmcli radio wifi off'' # notify_state s1 @ notify_update s2, s2))
      else ([System ''nmcli radio wifi off''], s))"


subsection \<open>\<open>get_wifi_interface\<close>, \<open>connect\<close>, \<open>disconnect\<close>\<close>

definition is_blank :: "char \<Rightarrow> bool" where
  "is_blank c \<longleftrightarrow> c \<in> {CHR '' '', CHR 0x09, CHR 0x0A, CHR 0x0D}"

definition trim :: "string \<Rightarrow> string" where
  "trim result = rev (dropWhile is_blank (rev (dropWhile is_blank result)))"

definition interface_cmd :: string where
  "interface_cmd = ''nmcli device status | grep wifi | grep -v p2p | awk '' @ [CHR 0x27]
     @ ''{print $1}'' @ [CHR 0x27]"

definition get_wifi_interface :: "pipe \<Rightarrow> event list \<times> string" where
  "get_wifi_interface p =
     (case p of
        PopenFailed \<Rightarrow> ([Popen interface_cmd], [])
      | PipeClosed data status \<Rightarrow> ([Popen interface_cmd], trim (c_str (fgets 128 data))))"

definition quoted :: "string \<Rightarrow> string" where
  "quoted str = [CHR 0x22] @ str @ [CHR 0x22]"

text \<open>
  What the outside world answers during one \<open>connect\<close>: the pipe of
  \<open>get_wifi_interface\<close>, the value of the \<open>std::system\<close> call that adds or
  activates the connection, and the pipe of the closing scan. The value of the
  \<open>nmcli con delete\<close> call is never read.
\<close>

record connect_world =
  interface_pipe :: pipe
  connect_result :: int
  scan_pipe :: pipe

definition report_connect :: "int \<Rightarrow> string \<Rightarrow> event" where
  "report_connect result name =
     (if result = 0 then Cout (''Successfully connected to '' @ name @ [CHR 0x0A])
      else Cerr (''Failed to connect to '' @ name @ [CHR 0x0A]))"

definition connect :: "connect_world \<Rightarrow> string \<Rightarrow> string \<Rightarrow> string \<Rightarrow> Impl \<Rightarrow> event list \<times> Impl" where
  "connect world name password security_type s =
     (if \<exists>net \<in> set (networks s). ssid net = name \<and> connected net then
        ([Cout (''Already connected to '' @ name @ [CHR 0x0A])], s)
      else
        (let hello = Cout (''Connecting to WiFi network: '' @ name @ ''...'' @ [CHR 0x0A])
         in if password \<noteq> [] \<and> security_type \<noteq> [] then
              (let (evs_if, wifi_interface) = get_wifi_interface (interface_pipe world)
               in if wifi_interface = [] then
                    (hello # evs_if @ [Cerr (''Error: No WiFi interface found'' @ [CHR 0x0A])], s)
                  else
                    (let conn_name = name;
                         delete_cmd = ''nmcli con delete '' @ quoted conn_name @ '' 2>/dev/null || true'';
                         create_cmd =
                           ''nmcli con add type wifi con-name '' @ quoted conn_name @ '' ifname ''
                             @ wifi_interface @ '' ssid '' @ quoted name @ '' && ''
                             @ ''nmcli con modify '' @ quoted conn_name @ '' wifi-sec.key-mgmt ''
                             @ security_type @ '' && ''
                             @ ''nmcli con modify '' @ quoted conn_name @ '' wifi-sec.psk ''
                             @ quoted password @ '' && ''
                             @ ''nmcli con up '' @ quoted conn_name;
                         (evs_scan, s') = scan_networks (scan_pipe world) s
                     in (hello # evs_if
                           @ [System delete_cmd, System create_cmd,
                              report_connect (connect_result world) name]
                           @ evs_scan, s')))
            else
              (let cmd = ''nmcli dev wifi connect '' @ quoted name
                           @ (if password \<noteq> [] then '' password '' @ quoted password else []);
                   (evs_scan, s') = scan_networks (scan_pipe world) s
               in (hello # [System cmd, report_connect (connect_result world) name] @ evs_scan, s'))))"

definition disconnect :: "pipe \<Rightarrow> pipe \<Rightarrow> Impl \<Rightarrow> event list \<times> Impl" where
  "disconnect p_interface p_scan s =
     (let (evs_if, wifi_interface) = get_wifi_interface p_interface
      in if wifi_interface = [] then
           (evs_if @ [Cerr (''Error: No WiFi interface found'' @ [CHR 0x0A])], s)
         else
           (let cmd = ''nmcli device disconnect '' @ wifi_interface;
                (evs_scan, s') = scan_networks p_scan s
            in (evs_if @ [Cout (''Disconnecting from WiFi...'' @ [CHR 0x0A]), System cmd] @ evs_scan,
                s')))"

text \<open>
  Modelled from the spec: \<open>WifiManager::get_networks\<close> is declared in the header and
  called by the network widget, but the file that implements the manager does not
  define it. The header says it returns the most recent scan results, the list held
  by the manager.
\<close>

definition get_networks :: "Impl \<Rightarrow> Network list" where
  "get_networks s = networks s"

section \<open>Background probes (\<open>scan_networks_async\<close>, the specification's \<open>refreshAsync\<close>)\<close>

text \<open>
  Modelled from the spec: \<open>WifiManager::scan_networks_async\<close> is declared in the header
  and called by the WiFi tab, but no file of this code defines it; \<open>scan_networks\<close>,
  the one scan that is implemented, issues its probe, reads it and stores the result
  in a single blocking call, so two of its probes never overlap. The specification
  describes the background refresh: every request gets the next value of a
  monotonically increasing sequence number; a completion is applied only when its
  number is larger than the number of the completion applied last, the comparison
  being made when the completion is applied; a completion that is superseded is
  discarded silently. The definitions cover completions that carry a result, the list
  of networks parsed from the probe.
\<close>

record DeviceManager =
  snapshot :: "Network list"
  last_issued :: nat
  last_applied :: nat

definition refreshAsync :: "DeviceManager \<Rightarrow> nat \<times> DeviceManager" where
  "refreshAsync m = (Suc (last_issued m), m\<lparr>last_issued := Suc (last_issued m)\<rparr>)"

definition apply_completion :: "nat \<Rightarrow> Network list \<Rightarrow> DeviceManager \<Rightarrow> DeviceManager" where
  "apply_completion seq result m =
     (if last_applied m < seq then m\<lparr>snapshot := result, last_applied := seq\<rparr> else m)"

section \<open>The network widget (\<open>WifiNetworkWidget::on_connect_clicked\<close>)\<close>

text \<open>
  The handler of the Connect button runs on the loop that delivers the click. The
  model lists what it does in order; \<open>Usleep\<close> is \<open>Glib::usleep\<close>, \<open>DialogRun\<close>
  is a modal dialog's \<open>run\<close>. The answers of the outside world are collected in
  \<open>click_world\<close>: one \<open>connect_world\<close> and one scan pipe for each of the two
  attempts, the pipes of \<open>disconnect\<close>, and what the user does with the password
  dialog.
\<close>

record click_world =
  disconnect_interface :: pipe
  disconnect_scan :: pipe
  saved_attempt :: connect_world
  saved_check :: pipe
  dialog_response :: int
  dialog_entry :: string
  password_attempt :: connect_world
  password_check :: pipe

definition RESPONSE_OK :: int where
  "RESPONSE_OK = - 5"

definition is_connected_to :: "string \<Rightarrow> Network list \<Rightarrow> bool" where
  "is_connected_to target nets \<longleftrightarrow> (\<exists>net \<in> set nets. ssid net = target \<and> connected net)"

definition on_connect_clicked :: "click_world \<Rightarrow> Network \<Rightarrow> Impl \<Rightarrow> event list \<times> Impl" where
  "on_connect_clicked world network s =
     (let target_ssid = ssid network
      in if connected network then
           disconnect (disconnect_interface world) (disconnect_scan world) s
         else
           (let security_type = (if secured network then ''wpa-psk'' else []);
                (evs1, s1) = connect (saved_attempt world) target_ssid [] security_type s;
                (evs2, s2) = scan_networks (saved_check world) s1;
                tried = Cout (''Trying to connect to '' @ target_ssid
                          @ '' using saved credentials...'' @ [CHR 0x0A]) # evs1
                          @ [Usleep 1000000] @ evs2
            in if is_connected_to target_ssid (get_networks s2) then
                 (tried @ [DialogRun (''Successfully connected to '' @ target_ssid)], s2)
               else if secured network then
                 (if dialog_response world = RESPONSE_OK then
                    (let password = dialog_entry world;
                         (evs3, s3) = connect (password_attempt world) target_ssid password
                                        security_type s2;
                         (evs4, s4) = scan_networks (password_check world) s3;
                         asked = tried @ [DialogRun ''Enter WiFi Password'',
                                   Cout (''Connecting to '' @ target_ssid @ '' with password...''
                                     @ [CHR 0x0A])] @ evs3 @ [Usleep 1000000] @ evs4
                     in if is_connected_to target_ssid (get_networks s4) then
                          (asked @ [DialogRun (''Successfully connected to '' @ target_ssid)], s4)
                        else
                          (asked @ [DialogRun (''Failed to connect to '' @ target_ssid)], s4))
                  else (tried @ [DialogRun ''Enter WiFi Password''], s2))
               else (tried, s2)))"

section \<open>The main window (\<open>MainWindow\<close>): lazily loaded tabs\<close>

text \<open>
  Every member function of \<open>MainWindow\<close> runs on the user-interface loop, one at a
  time. The model keeps what these functions read and write: the map \<open>tab_widgets_\<close>
  with the two flags of every tab, the map \<open>tab_load_errors_\<close>, the notebook (its
  pages and the current page), the function-local static flag of \<open>on_tab_switch\<close>, and
  the single-shot timers registered with \<open>Glib::signal_timeout().connect_once\<close>
  together with the time at which each becomes due.

  The notebook and the tab classes are not part of this code. A call that may throw
  takes its outcome as an argument; an exception is taken to leave the first call of
  the \<open>try\<close> block, before the notebook is touched. Signals of the notebook are
  delivered as events of their own (\<open>SwitchPage\<close> below).
\<close>

datatype widget = PlaceholderBox string | LoadingIndicator string | TabContent string

record TabInfo =
  widget :: "widget option"
  page_num :: int
  loaded :: bool
  loading :: bool

datatype outcome = Returns | Throws string | ThrowsOther

datatype callback =
    RemoveAnimateOut widget
  | FinishAnimateIn widget string
  | ShowAndLoad string int
  | ResetLoading
  | CreateTabContent string int

datatype effect =
    AddClass widget string
  | RemoveClass widget string
  | SetOpacity widget nat
  | Construct string
  | Emit string
  | Print string
  | PrintErr string

subsection \<open>\<open>std::map\<close> with string keys\<close>

text \<open>
  A \<open>std::map\<close> is a list of pairs in ascending key order, the order in which the
  loops of the source visit it. \<open>map_assign\<close> is \<open>m[k] = v\<close>; \<open>subscript\<close> is the
  bare \<open>m[k]\<close>, which inserts a value-initialised entry when the key is missing.
\<close>

type_synonym 'v std_map = "(string \<times> 'v) list"

fun map_assign :: "string \<Rightarrow> 'v \<Rightarrow> 'v std_map \<Rightarrow> 'v std_map" where
  "map_assign k v [] = [(k, v)]"
| "map_assign k v ((k', v') # m) =
     (if k = k' then (k, v) # m
      else if k < k' then (k, v) # (k', v') # m
      else (k', v') # map_assign k v m)"

definition default_TabInfo :: TabInfo where
  "default_TabInfo = \<lparr>widget = None, page_num = 0, loaded = False, loading = False\<rparr>"

definition subscript :: "string \<Rightarrow> TabInfo std_map \<Rightarrow> TabInfo std_map" where
  "subscript k m = (case map_of m k of None \<Rightarrow> map_assign k default_TabInfo m | Some v \<Rightarrow> m)"

definition tab_at :: "TabInfo std_map \<Rightarrow> string \<Rightarrow> TabInfo" where
  "tab_at m k = (case map_of m k of Some v \<Rightarrow> v | None \<Rightarrow> default_TabInfo)"

text \<open>The loops that look for the tab shown on a page: the first key whose entry has
  that page number, or the empty string.\<close>

definition page_tab_id :: "int \<Rightarrow> TabInfo std_map \<Rightarrow> string" where
  "page_tab_id page m =
     (case find (\<lambda>(k, info). page_num info = page) m of Some (k, info) \<Rightarrow> k | None \<Rightarrow> [])"

definition page_tab_to_load :: "int \<Rightarrow> TabInfo std_map \<Rightarrow> string" where
  "page_tab_to_load page m =
     (case find (\<lambda>(k, info). page_num info = page \<and> \<not> loaded info \<and> \<not> loading info) m of
        Some (k, info) \<Rightarrow> k
      | None \<Rightarrow> [])"

subsection \<open>The notebook\<close>

text \<open>
  \<open>Gtk::Notebook\<close> as the list of its pages and the index of the current page
  (\<open>- 1\<close> when there is none). A negative index given to \<open>remove_page\<close> or
  \<open>set_current_page\<close> means the last page, an index past the end is ignored;
  \<open>insert_page\<close> appends when the position is negative or past the end and returns
  the index of the new page. The current page stays the same widget when another
  page is removed or inserted; when the current page itself is removed, the page
  before it (or else the new first page) becomes current.
\<close>

record notebook =
  pages :: "widget list"
  current :: int

definition get_n_pages :: "notebook \<Rightarrow> int" where
  "get_n_pages nb = int (length (pages nb))"

definition get_current_page :: "notebook \<Rightarrow> int" where
  "get_current_page nb = current nb"

definition get_nth_page :: "notebook \<Rightarrow> int \<Rightarrow> widget option" where
  "get_nth_page nb n =
     (if 0 \<le> n \<and> n < get_n_pages nb then Some (pages nb ! nat n)
      else if n < 0 \<and> pages nb \<noteq> [] then Some (last (pages nb))
      else None)"

definition set_current_page :: "int \<Rightarrow> notebook \<Rightarrow> notebook" where
  "set_current_page n nb =
     (if 0 \<le> n \<and> n < get_n_pages nb then nb\<lparr>current := n\<rparr>
      else if n < 0 \<and> pages nb \<noteq> [] then nb\<lparr>current := get_n_pages nb - 1\<rparr>
      else nb)"

definition remove_page :: "int \<Rightarrow> notebook \<Rightarrow> notebook" where
  "remove_page n nb =
     (let k = (if n < 0 then get_n_pages nb - 1 else n)
      in if 0 \<le> k \<and> k < get_n_pages nb then
           \<lparr>pages = take (nat k) (pages nb) @ drop (Suc (nat k)) (pages nb),
            current = (if current nb < k then current nb
                       else if k < current nb then current nb - 1
                       else if 0 < k then k - 1
                       else if 1 < get_n_pages nb then 0
                       else - 1)\<rparr>
         else nb)"

definition insert_page :: "widget \<Rightarrow> int \<Rightarrow> notebook \<Rightarrow> int \<times> notebook" where
  "insert_page child position nb =
     (let k = (if position < 0 \<or> get_n_pages nb < position then get_n_pages nb else position)
      in (k, \<lparr>pages = take (nat k) (pages nb) @ child # drop (nat k) (pages nb),
               current = (if pages nb = [] then 0
                          else if k \<le> current nb then current nb + 1
                          else current nb)\<rparr>))"

definition append_page :: "widget \<Rightarrow> notebook \<Rightarrow> int \<times> notebook" where
  "append_page child nb = insert_page child (- 1) nb"

subsection \<open>The window\<close>

record MainWindow =
  initial_tab :: string
  prevent_auto_loading :: bool
  tab_widgets :: "TabInfo std_map"
  tab_load_errors :: "string std_map"
  on_tab_switch_loading :: bool
  notebook :: notebook
  timers :: "(nat \<times> callback) list"
  now :: nat
  effects :: "effect list"

definition connect_once :: "callback \<Rightarrow> nat \<Rightarrow> MainWindow \<Rightarrow> MainWindow" where
  "connect_once cb delay w = w\<lparr>timers := timers w @ [(now w + delay, cb)]\<rparr>"

definition perform :: "effect \<Rightarrow> MainWindow \<Rightarrow> MainWindow" where
  "perform e w = w\<lparr>effects := effects w @ [e]\<rparr>"

definition set_tab :: "string \<Rightarrow> (TabInfo \<Rightarrow> TabInfo) \<Rightarrow> MainWindow \<Rightarrow> MainWindow" where
  "set_tab tab_id f w =
     w\<lparr>tab_widgets := map_assign tab_id (f (tab_at (tab_widgets w) tab_id)) (tab_widgets w)\<rparr>"

definition touch_tab :: "string \<Rightarrow> MainWindow \<Rightarrow> MainWindow" where
  "touch_tab tab_id w = w\<lparr>tab_widgets := subscript tab_id (tab_widgets w)\<rparr>"

definition select_page :: "int \<Rightarrow> MainWindow \<Rightarrow> MainWindow" where
  "select_page n w = w\<lparr>notebook := set_current_page n (notebook w)\<rparr>"

definition tab_label :: "string \<Rightarrow> (string \<times> string) option" where
  "tab_label tab_id =
     (if tab_id = ''volume'' then Some (''audio-volume-high-symbolic'', ''Volume'')
      else if tab_id = ''wifi'' then Some (''network-wireless-symbolic'', ''WiFi'')
      else if tab_id = ''bluetooth'' then Some (''bluetooth-active-symbolic'', ''Bluetooth'')
      else if tab_id = ''display'' then Some (''video-display-symbolic'', ''Display'')
      else if tab_id = ''power'' then Some (''system-shutdown-symbolic'', ''Power'')
      else None)"

text \<open>The exit animation of the page being left (in \<open>switch_to_tab\<close> with 200 ms, in
  \<open>on_tab_switch\<close> with 250 ms) and the entrance animation of a loaded page.\<close>

definition animate_out :: "int \<Rightarrow> nat \<Rightarrow> MainWindow \<Rightarrow> MainWindow" where
  "animate_out target delay w =
     (let current_page = get_current_page (notebook w)
      in if 0 \<le> current_page \<and> current_page \<noteq> target then
           (case get_nth_page (notebook w) current_page of
              None \<Rightarrow> w
            | Some current_widget \<Rightarrow>
                (let current_tab_id = page_tab_id current_page (tab_widgets w)
                 in if current_tab_id \<noteq> [] \<and> loaded (tab_at (tab_widgets w) current_tab_id) then
                      connect_once (RemoveAnimateOut current_widget) delay
                        (perform (AddClass current_widget ''animate-out'') w)
                    else w))
         else w)"

definition animate_in :: "widget \<Rightarrow> string \<Rightarrow> MainWindow \<Rightarrow> MainWindow" where
  "animate_in wd message w =
     connect_once (FinishAnimateIn wd message) 50
       (perform (AddClass wd ''animate-in'') (perform (SetOpacity wd 0) w))"

definition show_loading_indicator :: "outcome \<Rightarrow> string \<Rightarrow> int \<Rightarrow> MainWindow \<Rightarrow> MainWindow" where
  "show_loading_indicator gtk tab_id page w =
     (let w1 = touch_tab tab_id w
      in if loaded (tab_at (tab_widgets w1) tab_id) \<or> loading (tab_at (tab_widgets w1) tab_id)
         then w1
         else if map_of (tab_widgets w1) tab_id = None then w1
         else if page < 0 \<or> get_n_pages (notebook w1) \<le> page then w1
         else
           (let w2 = set_tab tab_id (\<lambda>t. t\<lparr>loading := True\<rparr>) w1;
                loading_indicator = LoadingIndicator tab_id
            in case tab_label tab_id of
                 None \<Rightarrow> set_tab tab_id (\<lambda>t. t\<lparr>loading := False\<rparr>) w2
               | Some (icon_name, label_text) \<Rightarrow>
                   (case gtk of
                      Returns \<Rightarrow>
                        (let nb1 = remove_page page (notebook w2);
                             (new_page_num, nb2) = insert_page loading_indicator page nb1;
                             w3 = set_tab tab_id
                                    (\<lambda>t. t\<lparr>widget := Some loading_indicator,
                                            page_num := new_page_num\<rparr>)
                                    (w2\<lparr>notebook := nb2\<rparr>)
                         in if get_current_page (notebook w3) \<noteq> new_page_num
                            then select_page new_page_num w3 else w3)
                    | Throws what \<Rightarrow>
                        set_tab tab_id (\<lambda>t. t\<lparr>loading := False\<rparr>)
                          (perform (PrintErr (''Error showing loading indicator for tab ''
                             @ tab_id @ '': '' @ what @ [CHR 0x0A])) w2)
                    | ThrowsOther \<Rightarrow>
                        set_tab tab_id (\<lambda>t. t\<lparr>loading := False\<rparr>)
                          (perform (PrintErr (''Unknown error showing loading indicator for tab ''
                             @ tab_id @ [CHR 0x0A])) w2))))"

definition load_tab_content_async :: "string \<Rightarrow> int \<Rightarrow> MainWindow \<Rightarrow> MainWindow" where
  "load_tab_content_async tab_id page w =
     (let w1 = touch_tab tab_id w
      in if loaded (tab_at (tab_widgets w1) tab_id) \<or> map_of (tab_widgets w1) tab_id = None
         then w1
         else if tab_id = ''power'' then connect_once (CreateTabContent tab_id page) 10 w1
         else connect_once (CreateTabContent tab_id page) 100 w1)"

definition record_error :: "string \<Rightarrow> string \<Rightarrow> MainWindow \<Rightarrow> MainWindow" where
  "record_error tab_id what w =
     w\<lparr>tab_load_errors := map_assign tab_id what (tab_load_errors w)\<rparr>"

definition create_tab_content :: "outcome \<Rightarrow> string \<Rightarrow> int \<Rightarrow> MainWindow \<Rightarrow> MainWindow" where
  "create_tab_content factory tab_id page w =
     (let w1 = touch_tab tab_id w
      in if loaded (tab_at (tab_widgets w1) tab_id) \<or> map_of (tab_widgets w1) tab_id = None
         then w1
         else
           (case tab_label tab_id of
              None \<Rightarrow>
                record_error tab_id ''Unknown tab type''
                  (set_tab tab_id (\<lambda>t. t\<lparr>loading := False\<rparr>) w1)
            | Some (icon_name, label_text) \<Rightarrow>
                (case factory of
                   Returns \<Rightarrow>
                     (let content = TabContent tab_id;
                          w2 = perform (Construct tab_id) w1;
                          current_page_num = page_num (tab_at (tab_widgets w2) tab_id);
                          nb1 = remove_page current_page_num (notebook w2);
                          w3 = perform (AddClass content ''animate-in'')
                                 (perform (SetOpacity content 0)
                                   (perform (AddClass content ''tab-content'') w2));
                          (new_page_num, nb2) = insert_page content current_page_num nb1;
                          w4 = set_tab tab_id
                                 (\<lambda>t. t\<lparr>widget := Some content, page_num := new_page_num,
                                         loaded := True, loading := False\<rparr>)
                                 (w3\<lparr>notebook := nb2\<rparr>);
                          w5 = (if get_current_page (notebook w4) \<noteq> new_page_num
                                then select_page new_page_num w4 else w4);
                          w6 = connect_once (FinishAnimateIn content ''Starting tab animation'') 50 w5
                      in perform (Print (''Tab '' @ tab_id @ '' loaded and selected successfully''
                                    @ [CHR 0x0A]))
                           (perform (Emit tab_id) w6))
                 | Throws what \<Rightarrow>
                     perform (PrintErr (''Error creating tab '' @ tab_id @ '': '' @ what @ [CHR 0x0A]))
                       (record_error tab_id what
                         (set_tab tab_id (\<lambda>t. t\<lparr>loading := False\<rparr>)
                           (perform (Construct tab_id) w1)))
                 | ThrowsOther \<Rightarrow>
                     perform (PrintErr (''Unknown error creating tab '' @ tab_id @ [CHR 0x0A]))
                       (record_error tab_id ''Unknown error''
                         (set_tab tab_id (\<lambda>t. t\<lparr>loading := False\<rparr>)
                           (perform (Construct tab_id) w1))))))"

text \<open>
  \<open>switch_to_tab\<close> and the click handler of a tab label read the page number again
  through the iterator after \<open>show_loading_indicator\<close> has run: the second call gets
  the page number as it is then.
\<close>

definition load_unless_started :: "outcome \<Rightarrow> string \<Rightarrow> MainWindow \<Rightarrow> MainWindow" where
  "load_unless_started gtk tab_id w =
     (let w1 = show_loading_indicator gtk tab_id (page_num (tab_at (tab_widgets w) tab_id)) w
      in load_tab_content_async tab_id (page_num (tab_at (tab_widgets w1) tab_id)) w1)"

definition switch_to_tab :: "outcome \<Rightarrow> string \<Rightarrow> MainWindow \<Rightarrow> MainWindow" where
  "switch_to_tab gtk tab_id w =
     (case map_of (tab_widgets w) tab_id of
        None \<Rightarrow> w
      | Some info \<Rightarrow>
          (let w1 = animate_out (page_num info) 200 w;
               w2 = select_page (page_num info) w1
           in if \<not> loaded info \<and> \<not> loading info then load_unless_started gtk tab_id w2
              else if loaded info then
                (case widget info of
                   None \<Rightarrow> w2
                 | Some wd \<Rightarrow> animate_in wd ''Starting direct tab switch animation'' w2)
              else w2))"

definition button_press :: "outcome \<Rightarrow> nat \<Rightarrow> string \<Rightarrow> MainWindow \<Rightarrow> bool \<times> MainWindow" where
  "button_press gtk button tab_id w =
     (if button = 1 then
        (case map_of (tab_widgets w) tab_id of
           None \<Rightarrow> (True, w)
         | Some info \<Rightarrow>
             (let w1 = select_page (page_num info) w
              in if \<not> loaded info \<and> \<not> loading info then (True, load_unless_started gtk tab_id w1)
                 else (True, w1)))
      else (False, w))"

definition on_tab_switch :: "outcome \<Rightarrow> nat \<Rightarrow> MainWindow \<Rightarrow> MainWindow" where
  "on_tab_switch gtk page w =
     (if on_tab_switch_loading w then w
      else
        (let w1 = animate_out (int page) 250 w
         in if prevent_auto_loading w1 \<and> page_tab_id (int page) (tab_widgets w1) \<noteq> initial_tab w1
            then w1
            else
              (let tab_id_to_load = page_tab_to_load (int page) (tab_widgets w1)
               in if tab_id_to_load \<noteq> [] then
                    (let w2 = w1\<lparr>on_tab_switch_loading := True\<rparr>;
                         w3 = (if tab_id_to_load = ''power'' then
                                 load_tab_content_async tab_id_to_load (int page)
                                   (show_loading_indicator gtk tab_id_to_load (int page) w2)
                               else connect_once (ShowAndLoad tab_id_to_load (int page)) 50 w2)
                     in connect_once ResetLoading 100 w3)
                  else
                    (case get_nth_page (notebook w1) (int page) of
                       None \<Rightarrow> w1
                     | Some new_widget \<Rightarrow>
                         (let new_tab_id = page_tab_id (int page) (tab_widgets w1)
                          in if new_tab_id \<noteq> [] \<and> loaded (tab_at (tab_widgets w1) new_tab_id)
                             then animate_in new_widget ''Starting tab switch animation'' w1
                             else w1)))))"

subsection \<open>Construction of the window\<close>

text \<open>
  The tab settings are not part of this code: the tab order and the set of enabled
  tabs are arguments. The constructor enables the initial tab, adds a placeholder
  page for every enabled tab it knows, and selects the initial tab when one is given.
\<close>

definition add_tab :: "string \<Rightarrow> widget \<Rightarrow> MainWindow \<Rightarrow> MainWindow" where
  "add_tab tab_id wd w =
     (let (page, nb) = append_page wd (notebook w)
      in w\<lparr>notebook := nb,
           tab_widgets := map_assign tab_id
             \<lparr>widget = Some wd, page_num = page, loaded = False, loading = False\<rparr>
             (tab_widgets w)\<rparr>)"

definition create_tabs :: "string list \<Rightarrow> (string \<Rightarrow> bool) \<Rightarrow> MainWindow \<Rightarrow> MainWindow" where
  "create_tabs tab_order is_tab_enabled w =
     (let enabled = (if initial_tab w \<noteq> [] then is_tab_enabled (initial_tab w := True)
                     else is_tab_enabled)
      in fold (\<lambda>tab_id w'. if \<not> enabled tab_id then w'
                             else if tab_label tab_id \<noteq> None
                               then add_tab tab_id (PlaceholderBox tab_id) w'
                             else w')
           tab_order
           (w\<lparr>notebook := \<lparr>pages = [], current = - 1\<rparr>, tab_widgets := []\<rparr>))"

definition new_MainWindow :: "outcome \<Rightarrow> string \<Rightarrow> string list \<Rightarrow> (string \<Rightarrow> bool) \<Rightarrow> MainWindow" where
  "new_MainWindow gtk initial tab_order is_tab_enabled =
     (let w0 = \<lparr>initial_tab = initial, prevent_auto_loading = (initial \<noteq> []),
                tab_widgets = [], tab_load_errors = [], on_tab_switch_loading = False,
                notebook = \<lparr>pages = [], current = - 1\<rparr>, timers = [], now = 0, effects = []\<rparr>;
          w1 = create_tabs tab_order is_tab_enabled w0
      in if initial \<noteq> [] then switch_to_tab gtk initial w1 else w1)"

subsection \<open>The loop: user events, signals and timers\<close>

text \<open>
  One step of the loop runs one handler to completion. \<open>SwitchPage n\<close> is the
  notebook's page-switch signal for page \<open>n\<close>, delivered after the notebook has made
  that page current. \<open>Timeout i\<close> runs the \<open>i\<close>-th pending timer, which must be due
  and must not be later than any other pending timer; a single-shot timer is removed
  when it runs. \<open>Elapse d\<close> lets \<open>d\<close> milliseconds pass. The outcome given to a step
  is the outcome of the call that may throw in it, if there is one.
\<close>

datatype ui_event =
    SwitchToTab string
  | ButtonPress nat string
  | SwitchPage nat
  | Timeout nat
  | Elapse nat

definition run_callback :: "outcome \<Rightarrow> callback \<Rightarrow> MainWindow \<Rightarrow> MainWindow" where
  "run_callback x cb w =
     (case cb of
        RemoveAnimateOut wd \<Rightarrow> perform (RemoveClass wd ''animate-out'') w
      | FinishAnimateIn wd message \<Rightarrow>
          perform (SetOpacity wd 1)
            (perform (RemoveClass wd ''animate-in'') (perform (Print (message @ [CHR 0x0A])) w))
      | ShowAndLoad tab_id page \<Rightarrow>
          load_tab_content_async tab_id page (show_loading_indicator x tab_id page w)
      | ResetLoading \<Rightarrow> w\<lparr>on_tab_switch_loading := False\<rparr>
      | CreateTabContent tab_id page \<Rightarrow> create_tab_content x tab_id page w)"

definition timer_ready :: "nat \<Rightarrow> MainWindow \<Rightarrow> bool" where
  "timer_ready i w \<longleftrightarrow>
     i < length (timers w) \<and> fst (timers w ! i) \<le> now w \<and>
     list_all (\<lambda>t. fst (timers w ! i) \<le> fst t) (timers w)"

definition step :: "outcome \<Rightarrow> ui_event \<Rightarrow> MainWindow \<Rightarrow> MainWindow option" where
  "step x e w =
     (case e of
        SwitchToTab tab_id \<Rightarrow> Some (switch_to_tab x tab_id w)
      | ButtonPress button tab_id \<Rightarrow> Some (snd (button_press x button tab_id w))
      | SwitchPage n \<Rightarrow>
          (if int n < get_n_pages (notebook w)
           then Some (on_tab_switch x n (select_page (int n) w)) else None)
      | Timeout i \<Rightarrow>
          (if timer_ready i w
           then Some (run_callback x (snd (timers w ! i))
                        (w\<lparr>timers := take i (timers w) @ drop (Suc i) (timers w)\<rparr>))
           else None)
      | Elapse d \<Rightarrow> Some (w\<lparr>now := now w + d\<rparr>))"

fun run :: "(outcome \<times> ui_event) list \<Rightarrow> MainWindow \<Rightarrow> MainWindow option" where
  "run [] w = Some w"
| "run ((x, e) # es) w = (case step x e w of None \<Rightarrow> None | Some w' \<Rightarrow> run es w')"

subsection \<open>The lifecycle of a slot, read off the flags\<close>

text \<open>
  The code has no state variable for a slot. The four states of the lifecycle are
  read off what it keeps: \<open>loaded\<close> is Loaded, \<open>loading\<close> without \<open>loaded\<close> is
  Loading, neither flag with an entry in \<open>tab_load_errors_\<close> is Failed, neither flag
  and no recorded error is Placeholder.
\<close>

datatype lifecycle = Placeholder | Loading | Loaded | Failed

definition slot_state :: "MainWindow \<Rightarrow> string \<Rightarrow> lifecycle" where
  "slot_state w tab_id =
     (let t = tab_at (tab_widgets w) tab_id
      in if loaded t then Loaded
         else if loading t then Loading
         else if map_of (tab_load_errors w) tab_id \<noteq> None then Failed
         else Placeholder)"

definition construction_requests :: "string \<Rightarrow> MainWindow \<Rightarrow> nat" where
  "construction_requests tab_id w =
     length (filter (\<lambda>t. case snd t of CreateTabContent k page \<Rightarrow> k = tab_id | _ \<Rightarrow> False)
       (timers w))"

text \<open>
  The edges the specification allows, and the three further moves that
  \<open>create_tab_content\<close> can make on a slot that is not Loading when it runs.
\<close>

definition spec_edge :: "lifecycle \<Rightarrow> lifecycle \<Rightarrow> bool" where
  "spec_edge a b \<longleftrightarrow>
     (a, b) \<in> {(Placeholder, Loading), (Loading, Loaded), (Loading, Failed), (Failed, Loading)}"

definition direct_edge :: "lifecycle \<Rightarrow> lifecycle \<Rightarrow> bool" where
  "direct_edge a b \<longleftrightarrow> (a, b) \<in> {(Placeholder, Loaded), (Failed, Loaded), (Placeholder, Failed)}"

definition runs_construction :: "ui_event \<Rightarrow> MainWindow \<Rightarrow> string \<Rightarrow> bool" where
  "runs_construction e w tab_id =
     (case e of
        Timeout i \<Rightarrow>
          (case snd (timers w ! i) of CreateTabContent k page \<Rightarrow> k = tab_id | _ \<Rightarrow> False)
      | _ \<Rightarrow> False)"

text \<open>
  Timers and effects that only change how a page looks: the two animation timers,
  and a style class or an opacity being set.
\<close>

definition visual_callback :: "callback \<Rightarrow> bool" where
  "visual_callback cb =
     (case cb of RemoveAnimateOut wd \<Rightarrow> True | FinishAnimateIn wd message \<Rightarrow> True | _ \<Rightarrow> False)"

definition visual_effect :: "effect \<Rightarrow> bool" where
  "visual_effect e =
     (case e of AddClass wd c \<Rightarrow> True | RemoveClass wd c \<Rightarrow> True | SetOpacity wd v \<Rightarrow> True
      | _ \<Rightarrow> False)"

definition other_timers :: "MainWindow \<Rightarrow> (nat \<times> callback) list" where
  "other_timers w = filter (\<lambda>t. \<not> visual_callback (snd t)) (timers w)"

definition other_effects :: "MainWindow \<Rightarrow> effect list" where
  "other_effects w = filter (\<lambda>e. \<not> visual_effect e) (effects w)"

section \<open>Example values\<close>

definition home_net :: Network where
  "home_net =
     \<lparr>ssid = ''Home'', bssid = [], signal_strength = 80, connected = True, secured = True\<rparr>"

definition cafe_net :: Network where
  "cafe_net =
     \<lparr>ssid = ''Cafe'', bssid = [], signal_strength = 40, connected = False, secured = False\<rparr>"

definition home_listing :: string where
  "home_listing = ''*:Home:80:WPA2'' @ [CHR 0x0A]"

definition cafe_listing :: string where
  "cafe_listing = '':Cafe:40:--'' @ [CHR 0x0A]"

definition manager0 :: Impl where
  "manager0 =
     \<lparr>networks = [home_net], update_callback = True, state_callback = True,
      wifi_enabled = True\<rparr>"

definition cafe_world :: connect_world where
  "cafe_world =
     \<lparr>interface_pipe = PopenFailed, connect_result = 1,
      scan_pipe = PipeClosed cafe_listing 0\<rparr>"

definition click_world0 :: click_world where
  "click_world0 =
     \<lparr>disconnect_interface = PopenFailed, disconnect_scan = PopenFailed,
      saved_attempt = cafe_world, saved_check = PipeClosed cafe_listing 0,
      dialog_response = 0, dialog_entry = [],
      password_attempt = cafe_world, password_check = PopenFailed\<rparr>"

definition default_order :: "string list" where
  "default_order = [''volume'', ''wifi'', ''bluetooth'', ''display'', ''power'']"

definition plain_window :: MainWindow where
  "plain_window = new_MainWindow Returns [] default_order (\<lambda>tab_id. True)"


text \<open>
  A click on the label of the WiFi tab while another page is current: the notebook
  signals the page switch, then the click handler goes on. The timer of
  \<open>on_tab_switch\<close> runs after 50 ms and registers a second construction; the first
  construction, due after 100 ms, throws; the static flag is reset.
\<close>

definition failed_first_construction :: "(outcome \<times> ui_event) list" where
  "failed_first_construction =
     [(Returns, SwitchPage 1), (Returns, ButtonPress 1 ''wifi''), (Returns, Elapse 50),
      (Returns, Timeout 0), (Returns, Elapse 50), (Throws ''boom'', Timeout 1),
      (Returns, Timeout 0), (Returns, Elapse 50)]"

definition state_after :: "(outcome \<times> ui_event) list \<Rightarrow> MainWindow \<Rightarrow> string \<Rightarrow> lifecycle option" where
  "state_after es w tab_id = map_option (\<lambda>w'. slot_state w' tab_id) (run es w)"

text \<open>The window after the WiFi tab has been clicked and its content constructed.\<close>

definition loaded_window :: MainWindow where
  "loaded_window =
     (case run [(Returns, ButtonPress 1 ''wifi''), (Returns, Elapse 100), (Returns, Timeout 0)]
             plain_window of
        Some w \<Rightarrow> w
      | None \<Rightarrow> plain_window)"


text \<open>
  One selection of the WiFi tab in the window without initial tab: the notebook
  signals the switch to its page, \<open>switch_to_tab\<close> goes on, and 50 ms later the timer
  of \<open>on_tab_switch\<close> runs.
\<close>

definition select_with_signal :: "(outcome \<times> ui_event) list" where
  "select_with_signal =
     [(Returns, SwitchPage 1), (Returns, SwitchToTab ''wifi''), (Returns, Elapse 50),
      (Returns, Timeout 0)]"

definition requests_after :: "(outcome \<times> ui_event) list \<Rightarrow> MainWindow \<Rightarrow> string \<Rightarrow> nat option" where
  "requests_after es w tab_id = map_option (construction_requests tab_id) (run es w)"

definition fresh_manager :: DeviceManager where
  "fresh_manager = \<lparr>snapshot = [], last_issued = 0, last_applied = 0\<rparr>"

text \<open>Two selections of the WiFi tab during which the notebook calls of
  \<open>show_loading_indicator\<close> throw.\<close>

definition select_twice_throwing :: "(outcome \<times> ui_event) list" where
  "select_twice_throwing =
     [(Throws ''no memory'', SwitchToTab ''wifi''), (Throws ''no memory'', SwitchToTab ''wifi'')]"

section \<open>Properties of the WiFi manager\<close>

subsection \<open>Auxiliary facts\<close>

lemma scan_networks_closed:
  "wifi_enabled s \<Longrightarrow>
     scan_networks (PipeClosed r st) s =
       (Popen scan_cmd #
          (if update_callback s then [UpdateCallback (parse_result (read_all 4096 r) [])] else []),
        s\<lparr>networks := parse_result (read_all 4096 r) []\<rparr>)"
  by (simp add: scan_networks_def notify_update_def Let_def)

lemma scan_networks_failed:
  "wifi_enabled s \<Longrightarrow>
     scan_networks PopenFailed s =
       ([Popen scan_cmd, Cerr ''Failed to run nmcli\<newline>''], s\<lparr>networks := []\<rparr>)"
  by (simp add: scan_networks_def Let_def)

lemma read_all_listings:
  "read_all 4096 home_listing = home_listing"
  "read_all 4096 cafe_listing = cafe_listing"
  "read_all 4096 (home_listing @ '':Ca'') = home_listing @ '':Ca''"
  "read_all 4096 ''command not found\<newline>'' = ''command not found\<newline>''"
  by (simp_all add: home_listing_def cafe_listing_def read_all.simps fgets_def c_str_def)

lemma parse_cafe_listing: "parse_result (read_all 4096 cafe_listing) [] = [cafe_net]"
  unfolding read_all_listings unfolding cafe_listing_def cafe_net_def by code_simp

lemma parse_truncated_listing:
  "parse_result (read_all 4096 (home_listing @ '':Ca'')) [] = [home_net]"
  unfolding read_all_listings unfolding home_listing_def home_net_def by code_simp

lemma parse_useless_listing: "parse_result (read_all 4096 ''command not found\<newline>'') [] = []"
  unfolding read_all_listings by code_simp

lemma find_char_append:
  "find_char c (xs @ ys) =
     (case find_char c xs of
        Some p \<Rightarrow> Some p
      | None \<Rightarrow> map_option (\<lambda>p. length xs + p) (find_char c ys))"
  by (induction xs) (cases "find_char c ys"; auto split: option.splits)+

lemma find_char_None: "find_char c xs = None \<longleftrightarrow> c \<notin> set xs"
  by (induction xs) auto

lemma parse_result_no_newline: "CHR 0x0A \<notin> set t \<Longrightarrow> parse_result t nets = nets"
  by (subst parse_result.simps) (simp add: find_char_None [THEN iffD2])

lemma parse_result_drops_tail:
  "CHR 0x0A \<notin> set t \<Longrightarrow>
     parse_result (r @ CHR 0x0A # t) nets = parse_result (r @ [CHR 0x0A]) nets"
proof (induction r nets rule: parse_result.induct)
  case (1 result nets)
  show ?case
  proof (cases "find_char (CHR 0x0A) result")
    case None
    with 1(3) show ?thesis
      by (subst parse_result.simps, subst (2) parse_result.simps)
         (simp add: find_char_append parse_result_no_newline split: option.splits)
  next
    case found: (Some pos)
    then have pos: "pos < length result"
      by (rule find_char_less)
    show ?thesis
    proof (cases "parse_line (take pos result)")
      case None
      with found pos 1(1) [OF found refl refl None 1(3)] show ?thesis
        by (subst parse_result.simps, subst (2) parse_result.simps)
           (simp add: find_char_append)
    next
      case (Some net)
      with found pos 1(2) [OF found refl refl Some 1(3)] show ?thesis
        by (subst parse_result.simps, subst (2) parse_result.simps)
           (simp add: find_char_append)
    qed
  qed
qed

subsection \<open>Overlapping probes\<close>

text \<open>
  On the code that is present a probe is issued, read and applied by one call of
  \<open>scan_networks\<close>: of two calls the second is the probe issued last and applied
  last, and its listing is what an enabled manager holds afterwards.
\<close>

lemma second_scan_replaces_first:
  assumes "wifi_enabled s"
  shows "networks (snd (scan_networks (PipeClosed r st) (snd (scan_networks p s))))
           = parse_result (read_all 4096 r) []"
  using assms by (simp add: scan_networks_def Let_def split: pipe.splits)

text \<open>
  Claim C1: two probes are issued one after the other for the same manager (which
  has applied no completion that it has not issued). The second gets the larger
  sequence number, and in whichever order the two completions are applied, the
  snapshot afterwards is the result of the second probe: the completion of the first
  probe, when it is applied after that of the second, does not overwrite it.
\<close>

theorem newer_probe_wins_in_either_order:
  assumes "last_applied m \<le> last_issued m"
    and "refreshAsync m = (seq1, m1)" and "refreshAsync m1 = (seq2, m2)"
  shows "seq1 < seq2 \<and>
         snapshot (apply_completion seq2 r2 (apply_completion seq1 r1 m2)) = r2 \<and>
         snapshot (apply_completion seq1 r1 (apply_completion seq2 r2 m2)) = r2"
  using assms by (auto simp: refreshAsync_def apply_completion_def)

theorem newer_probe_wins_in_either_order_witness:
  "last_applied fresh_manager \<le> last_issued fresh_manager \<and>
   refreshAsync fresh_manager = (1, fresh_manager\<lparr>last_issued := 1\<rparr>) \<and>
   refreshAsync (fresh_manager\<lparr>last_issued := 1\<rparr>) = (2, fresh_manager\<lparr>last_issued := 2\<rparr>) \<and>
   snapshot (apply_completion 2 (parse_result (read_all 4096 cafe_listing) [])
     (apply_completion 1 (parse_result (read_all 4096 home_listing) [])
       (fresh_manager\<lparr>last_issued := 2\<rparr>))) = [cafe_net] \<and>
   snapshot (apply_completion 1 (parse_result (read_all 4096 home_listing) [])
     (apply_completion 2 (parse_result (read_all 4096 cafe_listing) [])
       (fresh_manager\<lparr>last_issued := 2\<rparr>))) = [cafe_net]"
proof -
  have invariant: "last_applied fresh_manager \<le> last_issued fresh_manager"
    by (simp add: fresh_manager_def)
  have first: "refreshAsync fresh_manager = (1, fresh_manager\<lparr>last_issued := 1\<rparr>)"
    by (simp add: refreshAsync_def fresh_manager_def)
  have second: "refreshAsync (fresh_manager\<lparr>last_issued := 1\<rparr>)
      = (2, fresh_manager\<lparr>last_issued := 2\<rparr>)"
    by (simp add: refreshAsync_def fresh_manager_def)
  show ?thesis
    using newer_probe_wins_in_either_order [OF invariant first second,
        of "parse_result (read_all 4096 cafe_listing) []"
           "parse_result (read_all 4096 home_listing) []"]
      invariant first second
    by (simp add: parse_cafe_listing)
qed

subsection \<open>Failed probes\<close>

text \<open>
  Claim C2, as the specification states it: a failed probe leaves the snapshot as it
  was, the list of networks before the probe is the list after it.

  \<open>scan_networks\<close> empties the list before it starts the command. When the command
  cannot be started, the manager that knew the network Home knows no network.
\<close>

theorem failed_probe_empties_snapshot:
  "networks (snd (scan_networks PopenFailed manager0)) \<noteq> networks manager0"
  by (simp add: scan_networks_failed manager0_def)

text \<open>
  Claim C2, amended: a probe of an enabled manager whose command cannot be started
  leaves the radio flag and the callbacks as they were, empties the list of networks
  and invokes no callback; the failure is written to the error stream only. A probe
  whose command runs and delivers no line that parses as a network empties the list
  as well and passes the empty list to the update callback, when one is registered.
\<close>

theorem failed_probe_outcome:
  assumes "wifi_enabled s" and "parse_result (read_all 4096 r) [] = []"
  shows "scan_networks PopenFailed s =
           ([Popen scan_cmd, Cerr ''Failed to run nmcli\<newline>''], s\<lparr>networks := []\<rparr>) \<and>
         scan_networks (PipeClosed r st) s =
           (Popen scan_cmd # (if update_callback s then [UpdateCallback []] else []),
            s\<lparr>networks := []\<rparr>)"
  using assms by (simp add: scan_networks_failed scan_networks_closed)

theorem failed_probe_outcome_witness:
  "wifi_enabled manager0 \<and>
   parse_result (read_all 4096 ''command not found\<newline>'') [] = [] \<and>
   scan_networks PopenFailed manager0 =
     ([Popen scan_cmd, Cerr ''Failed to run nmcli\<newline>''], manager0\<lparr>networks := []\<rparr>) \<and>
   scan_networks (PipeClosed ''command not found\<newline>'' 127) manager0 =
     ([Popen scan_cmd, UpdateCallback []], manager0\<lparr>networks := []\<rparr>)"
proof -
  have enabled: "wifi_enabled manager0"
    by (simp add: manager0_def)
  have registered: "update_callback manager0"
    by (simp add: manager0_def)
  show ?thesis
    using failed_probe_outcome [OF enabled parse_useless_listing, of 127]
      enabled registered parse_useless_listing
    by simp
qed

subsection \<open>The exit indicator of a probe\<close>

text \<open>
  Claim C8, as the specification states it: when the command ends with a non-zero
  exit indicator, the failure is reported and the text it wrote is discarded; nothing
  parsed from a truncated listing is applied.

  \<open>scan_networks\<close> never reads the value of \<open>pclose\<close>. A command that writes the
  line of Home and the beginning of a second line and then ends with exit indicator 1
  makes Home the list of networks, which the update callback receives; no
  diagnostic is written.
\<close>

theorem truncated_listing_is_applied:
  "scan_networks (PipeClosed (home_listing @ '':Ca'') 1) (manager0\<lparr>networks := []\<rparr>) =
     ([Popen scan_cmd, UpdateCallback [home_net]], manager0)"
  by (simp add: scan_networks_closed manager0_def parse_truncated_listing)

text \<open>
  Claim C8, amended: \<open>scan_networks\<close> does not look at the exit indicator: a command
  that ran has the same effect whatever \<open>pclose\<close> returns, and on an enabled manager
  the list of networks becomes what the lines it wrote parse to. Of a partial
  listing only the text behind the last newline is discarded. The one failure that
  is noticed is a command that cannot be started.
\<close>

theorem exit_indicator_is_ignored:
  assumes "wifi_enabled s" and "CHR 0x0A \<notin> set t"
  shows "scan_networks (PipeClosed r st) s = scan_networks (PipeClosed r 0) s \<and>
         networks (snd (scan_networks (PipeClosed r st) s)) = parse_result (read_all 4096 r) [] \<and>
         parse_result (listing @ CHR 0x0A # t) nets = parse_result (listing @ [CHR 0x0A]) nets"
proof (intro conjI)
  show "scan_networks (PipeClosed r st) s = scan_networks (PipeClosed r 0) s"
    using assms(1) by (simp add: scan_networks_closed)
  show "networks (snd (scan_networks (PipeClosed r st) s)) = parse_result (read_all 4096 r) []"
    using assms(1) by (simp add: scan_networks_closed)
  show "parse_result (listing @ CHR 0x0A # t) nets = parse_result (listing @ [CHR 0x0A]) nets"
    using assms(2) by (rule parse_result_drops_tail)
qed

theorem exit_indicator_is_ignored_witness:
  "wifi_enabled manager0 \<and> CHR 0x0A \<notin> set '':Ca'' \<and>
   scan_networks (PipeClosed cafe_listing 1) manager0
     = scan_networks (PipeClosed cafe_listing 0) manager0 \<and>
   networks (snd (scan_networks (PipeClosed cafe_listing 1) manager0)) = [cafe_net] \<and>
   parse_result (''*:Home:80:WPA2'' @ CHR 0x0A # '':Ca'') []
     = parse_result (''*:Home:80:WPA2'' @ [CHR 0x0A]) []"
proof -
  have enabled: "wifi_enabled manager0"
    by (simp add: manager0_def)
  have tail: "CHR 0x0A \<notin> set '':Ca''"
    by simp
  show ?thesis
    using exit_indicator_is_ignored [OF enabled tail, of cafe_listing 1 "''*:Home:80:WPA2''" "[]"]
      enabled
    by (simp add: scan_networks_closed parse_cafe_listing)
qed

subsection \<open>Scanning while the radio is off\<close>

text \<open>
  Claim C9: a call of \<open>scan_networks\<close> while WiFi is disabled starts no external
  command, leaves the stored list of networks empty, and invokes the update callback,
  when one is registered, exactly once, with the empty list. The events of the call
  are that one invocation or none; the pipe is not looked at.
\<close>

theorem scan_networks_while_disabled:
  assumes "\<not> wifi_enabled s"
  shows "scan_networks p s =
           ((if update_callback s then [UpdateCallback []] else []), s\<lparr>networks := []\<rparr>)"
  using assms by (simp add: scan_networks_def notify_update_def)

theorem scan_networks_while_disabled_witness:
  "\<not> wifi_enabled (manager0\<lparr>wifi_enabled := False\<rparr>) \<and>
   scan_networks (PipeClosed home_listing 0) (manager0\<lparr>wifi_enabled := False\<rparr>) =
     ([UpdateCallback []], manager0\<lparr>wifi_enabled := False, networks := []\<rparr>)"
  using scan_networks_while_disabled
    [of "manager0\<lparr>wifi_enabled := False\<rparr>" "PipeClosed home_listing 0"]
  by (simp add: manager0_def)

subsection \<open>Switching the radio\<close>

text \<open>
  Claim C10: when the radio command returns a non-zero value, \<open>enable_wifi\<close> and
  \<open>disable_wifi\<close> leave the manager as it was (the flag and the list of networks
  included) and invoke neither callback: the one event of the call is the command.
  Hence the flag changes and a callback runs only when the command returned zero.
\<close>

theorem radio_command_failure_changes_nothing:
  assumes "ret \<noteq> 0"
  shows "enable_wifi ret p s = ([System ''nmcli radio wifi on''], s) \<and>
         disable_wifi ret s = ([System ''nmcli radio wifi off''], s)"
  using assms by (simp add: enable_wifi_def disable_wifi_def)

theorem radio_command_failure_changes_nothing_witness:
  "(1::int) \<noteq> 0 \<and>
   enable_wifi 1 (PipeClosed home_listing 0) manager0 = ([System ''nmcli radio wifi on''], manager0) \<and>
   disable_wifi 1 manager0 = ([System ''nmcli radio wifi off''], manager0)"
  using radio_command_failure_changes_nothing [of 1 "PipeClosed home_listing 0" manager0]
  by simp

subsection \<open>The Connect button\<close>

text \<open>
  Claim C6 says that the user-interface loop never blocks: no external command is run
  on it synchronously and it never sleeps. The handler of the Connect button runs on
  that loop. For a network that is not connected it runs the \<open>nmcli\<close> command of
  \<open>connect\<close> with \<open>std::system\<close>, reads the scan through a pipe, sleeps for one
  second with \<open>Glib::usleep\<close> and scans again, all before it returns.
\<close>

theorem connect_button_blocks_the_loop:
  "fst (on_connect_clicked click_world0 cafe_net manager0) =
     [Cout (''Trying to connect to Cafe using saved credentials...'' @ [CHR 0x0A]),
      Cout (''Connecting to WiFi network: Cafe...'' @ [CHR 0x0A]),
      System (''nmcli dev wifi connect '' @ [CHR 0x22] @ ''Cafe'' @ [CHR 0x22]),
      Cerr (''Failed to connect to Cafe'' @ [CHR 0x0A]),
      Popen scan_cmd, UpdateCallback [cafe_net],
      Usleep 1000000,
      Popen scan_cmd, UpdateCallback [cafe_net]]"
  by (simp add: on_connect_clicked_def connect_def click_world0_def cafe_world_def
      manager0_def scan_networks_closed parse_cafe_listing report_connect_def quoted_def
      is_connected_to_def get_networks_def Let_def)
     (simp add: cafe_net_def home_net_def)

section \<open>Properties of the main window\<close>

subsection \<open>Auxiliary facts: the maps\<close>

lemma map_of_map_assign: "map_of (map_assign k v m) = (map_of m)(k \<mapsto> v)"
  by (induction m) (auto simp: fun_eq_iff)

lemma tab_at_map_assign: "tab_at (map_assign k v m) k' = (if k' = k then v else tab_at m k')"
  by (simp add: tab_at_def map_of_map_assign)

lemma tab_at_subscript: "tab_at (subscript k m) k' = tab_at m k'"
  by (auto simp: tab_at_def subscript_def map_of_map_assign split: option.splits)

lemma map_of_subscript: "map_of (subscript k m) k \<noteq> None"
  by (auto simp: subscript_def map_of_map_assign split: option.splits)



subsection \<open>Auxiliary facts: what each function does to the flags\<close>

lemma slot_state_perform [simp]: "slot_state (perform e w) k = slot_state w k"
  by (simp add: slot_state_def perform_def Let_def)

lemma slot_state_connect_once [simp]: "slot_state (connect_once cb d w) k = slot_state w k"
  by (simp add: slot_state_def connect_once_def Let_def)

lemma slot_state_select_page [simp]: "slot_state (select_page n w) k = slot_state w k"
  by (simp add: slot_state_def select_page_def Let_def)

lemma slot_state_touch_tab [simp]: "slot_state (touch_tab k' w) k = slot_state w k"
  by (simp add: slot_state_def touch_tab_def tab_at_subscript Let_def)

lemma slot_state_updates [simp]:
  "slot_state (w\<lparr>notebook := nb\<rparr>) k = slot_state w k"
  "slot_state (w\<lparr>timers := ts\<rparr>) k = slot_state w k"
  "slot_state (w\<lparr>now := t\<rparr>) k = slot_state w k"
  "slot_state (w\<lparr>on_tab_switch_loading := b\<rparr>) k = slot_state w k"
  by (simp_all add: slot_state_def Let_def)

lemma slot_state_animate_out [simp]: "slot_state (animate_out n d w) k = slot_state w k"
  by (simp add: animate_out_def Let_def split: option.split)

lemma slot_state_animate_in [simp]: "slot_state (animate_in wd m w) k = slot_state w k"
  by (simp add: animate_in_def)

lemma slot_state_load_tab_content_async [simp]:
  "slot_state (load_tab_content_async k' p w) k = slot_state w k"
  by (simp add: load_tab_content_async_def Let_def)

lemma show_loading_indicator_errors:
  "tab_load_errors (show_loading_indicator g k p w) = tab_load_errors w"
  by (simp add: show_loading_indicator_def Let_def set_tab_def touch_tab_def select_page_def
      perform_def split: option.split outcome.split prod.split)

lemma show_loading_indicator_loaded:
  "loaded (tab_at (tab_widgets (show_loading_indicator g k' p w)) k)
     = loaded (tab_at (tab_widgets w) k)"
  by (simp add: show_loading_indicator_def Let_def set_tab_def touch_tab_def select_page_def
      perform_def tab_at_subscript tab_at_map_assign split: option.split outcome.split prod.split)

lemma show_loading_indicator_loading:
  "loading (tab_at (tab_widgets (show_loading_indicator g k' p w)) k)
     = (loading (tab_at (tab_widgets w) k) \<or>
        (k = k' \<and> \<not> loaded (tab_at (tab_widgets w) k') \<and> 0 \<le> p \<and>
         p < get_n_pages (notebook w) \<and> tab_label k' \<noteq> None \<and> g = Returns))"
  by (simp add: show_loading_indicator_def Let_def set_tab_def touch_tab_def select_page_def
      perform_def tab_at_subscript tab_at_map_assign map_of_subscript
      split: option.split outcome.split prod.split)

lemma slot_state_show_loading_indicator:
  "slot_state (show_loading_indicator g k' p w) k = slot_state w k \<or>
   (slot_state w k = Placeholder \<or> slot_state w k = Failed) \<and>
   slot_state (show_loading_indicator g k' p w) k = Loading"
  by (simp add: slot_state_def Let_def show_loading_indicator_errors
      show_loading_indicator_loaded show_loading_indicator_loading)

lemma create_tab_content_when_loaded:
  "loaded (tab_at (tab_widgets w) k) \<Longrightarrow> create_tab_content x k p w = touch_tab k w"
  by (simp add: create_tab_content_def Let_def touch_tab_def tab_at_subscript)

lemma create_tab_content_unknown:
  "\<not> loaded (tab_at (tab_widgets w) k) \<Longrightarrow> tab_label k = None \<Longrightarrow>
     create_tab_content x k p w =
       record_error k ''Unknown tab type'' (set_tab k (\<lambda>t. t\<lparr>loading := False\<rparr>) (touch_tab k w))"
  by (simp add: create_tab_content_def Let_def touch_tab_def tab_at_subscript map_of_subscript)

lemma slot_state_set_tab:
  "slot_state (set_tab k' f w) k =
     (if k = k' then
        (let t = f (tab_at (tab_widgets w) k')
         in if loaded t then Loaded else if loading t then Loading
            else if map_of (tab_load_errors w) k \<noteq> None then Failed else Placeholder)
      else slot_state w k)"
  by (simp add: slot_state_def set_tab_def tab_at_map_assign Let_def)

lemma slot_state_create_tab_content_returns:
  assumes "\<not> loaded (tab_at (tab_widgets w) k')" and "tab_label k' \<noteq> None"
  shows "slot_state (create_tab_content Returns k' p w) k =
           (if k = k' then Loaded else slot_state w k)"
proof -
  obtain icon_name label_text where label: "tab_label k' = Some (icon_name, label_text)"
    using assms(2) by auto
  show ?thesis
    using assms(1)
    by (simp add: create_tab_content_def Let_def label touch_tab_def tab_at_subscript
        map_of_subscript split_beta slot_state_set_tab select_page_def)
       (simp add: slot_state_def perform_def Let_def tab_at_subscript)
qed

lemma slot_state_create_tab_content_throws:
  assumes "\<not> loaded (tab_at (tab_widgets w) k')" and "tab_label k' \<noteq> None" and "x \<noteq> Returns"
  shows "slot_state (create_tab_content x k' p w) k =
           (if k = k' then Failed else slot_state w k)"
proof -
  obtain icon_name label_text where label: "tab_label k' = Some (icon_name, label_text)"
    using assms(2) by auto
  have not_Loaded: "slot_state w k' \<noteq> Loaded"
    using assms(1) by (simp add: slot_state_def Let_def)
  show ?thesis
  proof (cases x)
    case Returns
    with assms(3) show ?thesis by simp
  next
    case (Throws what)
    with assms(1) not_Loaded show ?thesis
      by (simp add: create_tab_content_def Let_def label touch_tab_def tab_at_subscript
          map_of_subscript)
         (auto simp: slot_state_def perform_def record_error_def set_tab_def
            tab_at_map_assign tab_at_subscript map_of_map_assign Let_def)
  next
    case ThrowsOther
    with assms(1) not_Loaded show ?thesis
      by (simp add: create_tab_content_def Let_def label touch_tab_def tab_at_subscript
          map_of_subscript)
         (auto simp: slot_state_def perform_def record_error_def set_tab_def
            tab_at_map_assign tab_at_subscript map_of_map_assign Let_def)
  qed
qed

lemma slot_state_create_tab_content:
  "slot_state (create_tab_content x k' p w) k =
     (if k = k' \<and> slot_state w k \<noteq> Loaded
      then (if tab_label k \<noteq> None \<and> x = Returns then Loaded else Failed)
      else slot_state w k)"
proof (cases "loaded (tab_at (tab_widgets w) k')")
  case True
  then have "slot_state w k' = Loaded"
    by (simp add: slot_state_def Let_def)
  with True show ?thesis
    by (simp add: create_tab_content_when_loaded)
next
  case not_loaded: False
  then have not_Loaded: "slot_state w k' \<noteq> Loaded"
    by (simp add: slot_state_def Let_def)
  show ?thesis
  proof (cases "tab_label k' = None")
    case True
    have "slot_state (create_tab_content x k' p w) k = (if k = k' then Failed else slot_state w k)"
      using not_loaded True
      by (simp add: create_tab_content_unknown)
         (auto simp: slot_state_def record_error_def set_tab_def touch_tab_def
            tab_at_map_assign tab_at_subscript map_of_map_assign Let_def)
    with True not_Loaded show ?thesis
      by simp
  next
    case known: False
    show ?thesis
    proof (cases "x = Returns")
      case True
      with not_loaded known not_Loaded show ?thesis
        by (simp add: slot_state_create_tab_content_returns)
    next
      case False
      with not_loaded known not_Loaded show ?thesis
        by (simp add: slot_state_create_tab_content_throws)
    qed
  qed
qed

subsection \<open>Auxiliary facts: the handlers\<close>

lemma slot_state_load_unless_started:
  "slot_state (load_unless_started g k' w) k = slot_state w k \<or>
   spec_edge (slot_state w k) (slot_state (load_unless_started g k' w) k)"
  using slot_state_show_loading_indicator [of g k' "page_num (tab_at (tab_widgets w) k')" w k]
  by (auto simp: load_unless_started_def Let_def spec_edge_def)

lemma slot_state_switch_to_tab:
  "slot_state (switch_to_tab g k' w) k = slot_state w k \<or>
   spec_edge (slot_state w k) (slot_state (switch_to_tab g k' w) k)"
proof (cases "map_of (tab_widgets w) k'")
  case None
  then show ?thesis by (simp add: switch_to_tab_def)
next
  case (Some info)
  show ?thesis
    using slot_state_load_unless_started
      [of g k' "select_page (page_num info) (animate_out (page_num info) 200 w)" k]
    by (auto simp: switch_to_tab_def Some Let_def split: option.split)
qed

lemma slot_state_button_press:
  "slot_state (snd (button_press g b k' w)) k = slot_state w k \<or>
   spec_edge (slot_state w k) (slot_state (snd (button_press g b k' w)) k)"
proof (cases "map_of (tab_widgets w) k'")
  case None
  then show ?thesis by (simp add: button_press_def)
next
  case (Some info)
  show ?thesis
    using slot_state_load_unless_started [of g k' "select_page (page_num info) w" k]
    by (auto simp: button_press_def Some Let_def)
qed

lemma slot_state_on_tab_switch:
  "slot_state (on_tab_switch g n w) k = slot_state w k \<or>
   spec_edge (slot_state w k) (slot_state (on_tab_switch g n w) k)"
proof -
  let ?w1 = "animate_out (int n) 250 w"
  let ?k = "page_tab_to_load (int n) (tab_widgets ?w1)"
  have "slot_state (show_loading_indicator g ?k (int n) (?w1\<lparr>on_tab_switch_loading := True\<rparr>)) k
          = slot_state w k \<or>
        spec_edge (slot_state w k)
          (slot_state (show_loading_indicator g ?k (int n) (?w1\<lparr>on_tab_switch_loading := True\<rparr>)) k)"
    using slot_state_show_loading_indicator
      [of g ?k "int n" "?w1\<lparr>on_tab_switch_loading := True\<rparr>" k]
    by (auto simp: spec_edge_def)
  then show ?thesis
    by (auto simp: on_tab_switch_def Let_def split: option.split)
qed

lemma slot_state_run_callback:
  "slot_state (run_callback x cb w) k = slot_state w k \<or>
   spec_edge (slot_state w k) (slot_state (run_callback x cb w) k) \<or>
   (\<exists>page. cb = CreateTabContent k page) \<and>
     direct_edge (slot_state w k) (slot_state (run_callback x cb w) k)"
proof (cases cb)
  case (ShowAndLoad k' page)
  then show ?thesis
    using slot_state_show_loading_indicator [of x k' page w k]
    by (auto simp: run_callback_def spec_edge_def)
next
  case (CreateTabContent k' page)
  then show ?thesis
    by (cases "slot_state w k")
       (auto simp: run_callback_def slot_state_create_tab_content spec_edge_def direct_edge_def)
qed (simp_all add: run_callback_def)

subsection \<open>The lifecycle of a slot\<close>

text \<open>
  Claim C3, as the specification states it: the state of a slot moves only along
  Placeholder to Loading, Loading to Loaded, Loading to Failed and Failed to Loading.

  \<open>create_tab_content\<close> asks only whether the tab is loaded already. After a click on
  the label of the WiFi tab two constructions are pending, one registered by the
  click handler and one by the timer of \<open>on_tab_switch\<close>. When the first throws, the
  slot is Failed; the second then runs on the failed slot and takes it to Loaded,
  without the slot having been Loading in between.
\<close>

theorem failed_slot_becomes_loaded_directly:
  "state_after failed_first_construction plain_window ''wifi'' = Some Failed \<and>
   state_after (failed_first_construction @ [(Returns, Timeout 0)]) plain_window ''wifi''
     = Some Loaded \<and>
   \<not> spec_edge Failed Loaded"
  by (simp add: spec_edge_def) code_simp

text \<open>
  Claim C3, amended: in every step of the loop the state of a slot stays as it is or
  moves along one of the four edges of the specification, except that a pending
  construction that runs on a slot which is not Loading may take it from Placeholder
  or Failed directly to Loaded, or from Placeholder to Failed. A Loaded slot stays
  Loaded, and no slot returns to Placeholder.
\<close>

theorem slot_moves_along_edges:
  assumes "step x e w = Some w'"
  shows "slot_state w' k = slot_state w k \<or>
         spec_edge (slot_state w k) (slot_state w' k) \<or>
         runs_construction e w k \<and> direct_edge (slot_state w k) (slot_state w' k)"
proof (cases e)
  case (SwitchToTab k')
  with assms slot_state_switch_to_tab [of x k' w k] show ?thesis
    by (auto simp: step_def)
next
  case (ButtonPress b k')
  with assms slot_state_button_press [of x b k' w k] show ?thesis
    by (auto simp: step_def)
next
  case (SwitchPage n)
  with assms slot_state_on_tab_switch [of x n "select_page (int n) w" k] show ?thesis
    by (auto simp: step_def split: if_splits)
next
  case (Timeout i)
  let ?w = "w\<lparr>timers := take i (timers w) @ drop (Suc i) (timers w)\<rparr>"
  from assms Timeout have w': "w' = run_callback x (snd (timers w ! i)) ?w"
    by (auto simp: step_def split: if_splits)
  show ?thesis
    using slot_state_run_callback [of x "snd (timers w ! i)" ?w k]
    by (auto simp: w' Timeout runs_construction_def)
next
  case (Elapse d)
  with assms show ?thesis
    by (auto simp: step_def)
qed

theorem slot_moves_along_edges_witness:
  "step Returns (ButtonPress 1 ''wifi'') plain_window
     = Some (snd (button_press Returns 1 ''wifi'' plain_window)) \<and>
   slot_state plain_window ''wifi'' = Placeholder \<and>
   slot_state (snd (button_press Returns 1 ''wifi'' plain_window)) ''wifi'' = Loading \<and>
   spec_edge Placeholder Loading"
proof -
  have fired: "step Returns (ButtonPress 1 ''wifi'') plain_window
      = Some (snd (button_press Returns 1 ''wifi'' plain_window))"
    by (simp add: step_def)
  have before: "slot_state plain_window ''wifi'' = Placeholder"
    by code_simp
  have after: "slot_state (snd (button_press Returns 1 ''wifi'' plain_window)) ''wifi'' = Loading"
    by code_simp
  show ?thesis
    using slot_moves_along_edges [OF fired, of "''wifi''"] fired before after
    by (simp add: spec_edge_def)
qed

subsection \<open>Auxiliary facts: animations\<close>

lemma animate_out_frame:
  "tab_widgets (animate_out n d w) = tab_widgets w"
  "tab_load_errors (animate_out n d w) = tab_load_errors w"
  "on_tab_switch_loading (animate_out n d w) = on_tab_switch_loading w"
  "notebook (animate_out n d w) = notebook w"
  "now (animate_out n d w) = now w"
  "prevent_auto_loading (animate_out n d w) = prevent_auto_loading w"
  "initial_tab (animate_out n d w) = initial_tab w"
  "other_timers (animate_out n d w) = other_timers w"
  "other_effects (animate_out n d w) = other_effects w"
  by (simp_all add: animate_out_def Let_def connect_once_def perform_def other_timers_def
      other_effects_def visual_callback_def visual_effect_def split: option.split)

lemma animate_in_frame:
  "tab_widgets (animate_in wd m w) = tab_widgets w"
  "tab_load_errors (animate_in wd m w) = tab_load_errors w"
  "on_tab_switch_loading (animate_in wd m w) = on_tab_switch_loading w"
  "notebook (animate_in wd m w) = notebook w"
  "prevent_auto_loading (animate_in wd m w) = prevent_auto_loading w"
  "initial_tab (animate_in wd m w) = initial_tab w"
  "other_timers (animate_in wd m w) = other_timers w"
  "other_effects (animate_in wd m w) = other_effects w"
  by (simp_all add: animate_in_def connect_once_def perform_def other_timers_def
      other_effects_def visual_callback_def visual_effect_def)

lemma select_page_frame:
  "tab_widgets (select_page n w) = tab_widgets w"
  "tab_load_errors (select_page n w) = tab_load_errors w"
  "on_tab_switch_loading (select_page n w) = on_tab_switch_loading w"
  "prevent_auto_loading (select_page n w) = prevent_auto_loading w"
  "initial_tab (select_page n w) = initial_tab w"
  "timers (select_page n w) = timers w"
  "effects (select_page n w) = effects w"
  "now (select_page n w) = now w"
  "other_timers (select_page n w) = other_timers w"
  "other_effects (select_page n w) = other_effects w"
  by (simp_all add: select_page_def other_timers_def other_effects_def)

subsection \<open>Selecting a loaded slot\<close>

text \<open>
  Claim C5: \<open>switch_to_tab\<close> on a slot that is Loaded only shows it. The map of the
  tabs (the content and the flags of every slot), the recorded errors and the static
  flag stay as they are; no timer other than an animation timer is registered, so
  there is no construction request; no effect other than a style class or an
  opacity is produced, so no tab is constructed and no command of a tab runs. What is
  added last is the entrance animation of the slot's content.
\<close>

theorem select_loaded_is_visual_only:
  assumes "map_of (tab_widgets w) k = Some info" and "loaded info"
  shows "tab_widgets (switch_to_tab g k w) = tab_widgets w \<and>
         tab_load_errors (switch_to_tab g k w) = tab_load_errors w \<and>
         on_tab_switch_loading (switch_to_tab g k w) = on_tab_switch_loading w \<and>
         other_timers (switch_to_tab g k w) = other_timers w \<and>
         other_effects (switch_to_tab g k w) = other_effects w \<and>
         construction_requests k' (switch_to_tab g k w) = construction_requests k' w \<and>
         slot_state (switch_to_tab g k w) k' = slot_state w k' \<and>
         (case widget info of
            None \<Rightarrow> True
          | Some wd \<Rightarrow>
              last (timers (switch_to_tab g k w))
                = (now w + 50, FinishAnimateIn wd ''Starting direct tab switch animation'') \<and>
              last (effects (switch_to_tab g k w)) = AddClass wd ''animate-in'')"
proof -
  let ?w2 = "select_page (page_num info) (animate_out (page_num info) 200 w)"
  have eq: "switch_to_tab g k w =
      (case widget info of
         None \<Rightarrow> ?w2
       | Some wd \<Rightarrow> animate_in wd ''Starting direct tab switch animation'' ?w2)"
    using assms by (simp add: switch_to_tab_def Let_def)
  have requests: "construction_requests k' v = construction_requests k' w"
    if "other_timers v = other_timers w" for v
  proof -
    have "construction_requests k' u =
        length (filter (\<lambda>t. case snd t of CreateTabContent k page \<Rightarrow> k = k' | _ \<Rightarrow> False)
          (other_timers u))" for u
      unfolding construction_requests_def other_timers_def filter_filter
      by (rule arg_cong [where f = length], rule filter_cong)
         (auto simp: visual_callback_def split: callback.splits)
    with that show ?thesis by simp
  qed
  have frame: "tab_widgets ?w2 = tab_widgets w" "tab_load_errors ?w2 = tab_load_errors w"
    "on_tab_switch_loading ?w2 = on_tab_switch_loading w" "other_timers ?w2 = other_timers w"
    "other_effects ?w2 = other_effects w" "now ?w2 = now w"
    by (simp_all add: select_page_frame animate_out_frame)
  show ?thesis
  proof (cases "widget info")
    case None
    with frame requests [OF frame(4)] show ?thesis
      by (simp add: eq)
  next
    case (Some wd)
    let ?w3 = "animate_in wd ''Starting direct tab switch animation'' ?w2"
    have timers: "other_timers ?w3 = other_timers w"
      by (simp add: animate_in_frame frame)
    have last_timer: "last (timers ?w3)
        = (now w + 50, FinishAnimateIn wd ''Starting direct tab switch animation'')"
      by (simp add: animate_in_def connect_once_def perform_def frame)
    have last_effect: "last (effects ?w3) = AddClass wd ''animate-in''"
      by (simp add: animate_in_def connect_once_def perform_def)
    from Some frame timers requests [OF timers] last_timer last_effect show ?thesis
      by (simp add: eq animate_in_frame)
  qed
qed

theorem select_loaded_is_visual_only_witness:
  "map_of (tab_widgets loaded_window) ''wifi''
     = Some \<lparr>widget = Some (TabContent ''wifi''), page_num = 1, loaded = True, loading = False\<rparr> \<and>
   tab_widgets (switch_to_tab Returns ''wifi'' loaded_window) = tab_widgets loaded_window \<and>
   other_timers (switch_to_tab Returns ''wifi'' loaded_window) = [] \<and>
   other_effects (switch_to_tab Returns ''wifi'' loaded_window)
     = [Construct ''wifi'', Emit ''wifi'',
        Print ''Tab wifi loaded and selected successfully\<newline>''] \<and>
   slot_state (switch_to_tab Returns ''wifi'' loaded_window) ''wifi'' = Loaded"
proof -
  have present: "map_of (tab_widgets loaded_window) ''wifi''
      = Some \<lparr>widget = Some (TabContent ''wifi''), page_num = 1, loaded = True, loading = False\<rparr>"
    by code_simp
  have is_loaded: "loaded \<lparr>widget = Some (TabContent ''wifi''), page_num = 1, loaded = True,
      loading = False\<rparr>"
    by simp
  have timers: "other_timers loaded_window = []"
    by code_simp
  have effects: "other_effects loaded_window
      = [Construct ''wifi'', Emit ''wifi'',
         Print ''Tab wifi loaded and selected successfully\<newline>'']"
    by code_simp
  have state: "slot_state loaded_window ''wifi'' = Loaded"
    by code_simp
  show ?thesis
    using select_loaded_is_visual_only [OF present is_loaded, of Returns "''wifi''"]
      present timers effects state
    by simp
qed

subsection \<open>Auxiliary facts: replacing a page, starting a load\<close>








subsection \<open>Repeated selection of a slot that is not loaded\<close>

text \<open>
  Claim C4 says that at most one load of a slot is in flight at any instant: selecting
  a Placeholder slot, however often, gives exactly one move to Loading and exactly one
  construction request, and no second load starts before that one has completed or
  failed.

  \<open>load_tab_content_async\<close> carries the comment that it checks whether the tab is
  already loaded or loading, but it asks only whether the tab is loaded. When the
  notebook has signalled the page switch of a selection, the timer registered by
  \<open>on_tab_switch\<close> runs 50 ms later and registers a second construction for the
  slot, which \<open>switch_to_tab\<close> has taken to Loading already: two construction
  requests for the same slot are pending at the same time. And when the notebook calls
  of \<open>show_loading_indicator\<close> throw, \<open>switch_to_tab\<close> registers a construction all
  the same: after two selections the slot is still Placeholder and two construction
  requests are pending.
\<close>

theorem one_selection_two_construction_requests:
  "state_after select_with_signal plain_window ''wifi'' = Some Loading \<and>
   requests_after select_with_signal plain_window ''wifi'' = Some 2 \<and>
   state_after select_twice_throwing plain_window ''wifi'' = Some Placeholder \<and>
   requests_after select_twice_throwing plain_window ''wifi'' = Some 2"
  by code_simp


subsection \<open>Auxiliary facts: the initial tab\<close>












subsection \<open>An initial tab\<close>




end
